theory Spec2Isabelle
  imports Complex_Main
begin

section \<open>The calculation engine of \<open>advanced_finance_guru.py\<close>\<close>

text \<open>
  The engine is the class \<open>FinancialGuru\<close>: the annuity formulas \<open>calculate_sip\<close>,
  \<open>calculate_swp\<close> and \<open>calculate_emi\<close>, the slab walk \<open>calculate_tax\<close>, the threshold
  rules \<open>tax_saving_options\<close>, the composition \<open>create_goal_plan\<close> and the volatility
  score \<open>_calculate_risk_profile\<close>.

  Conventions of the embedding.
  \<^item> A Python \<open>float\<close> is the real number it holds; a Python \<open>int\<close> is an \<open>int\<close>.
    Income and deductions are ints, as the dashboard's number inputs give them;
    durations in years are ints, negative ones included; rates, the amounts of the
    annuity formulas and the current cost of a goal are floats.
  \<^item> \<open>OverflowError\<close> is raised where Python raises it: by \<open>**\<close> when the power
    leaves the float range, and by the conversion of an int operand of a float
    multiplication or of an int exponent when the int leaves it.
  \<^item> The rounding of a finite result to the nearest float is not modelled, and neither
    are the values \<open>inf\<close> and \<open>nan\<close> that a float product or sum can take without
    raising. A theorem whose conclusion depends on either says so in its hypotheses.
  \<^item> Every \<open>try\<close> body is a function \<open>..._try\<close> into \<open>py_error + 'a\<close>; the method itself
    is the \<open>except\<close> handler applied to it, so each raise of the source is a branch.
\<close>

subsection \<open>Python's faulting arithmetic\<close>

datatype py_error =
  ZeroDivisionError | OverflowError | ValueError | TypeError | AttributeError | KeyError

text \<open>
  The float range. A real of magnitude \<open>2 ^ 1024 - 2 ^ 970\<close> or more lies at least
  half a unit in the last place beyond the largest float \<open>2 ^ 1024 - 2 ^ 971\<close> and
  rounds to no finite float.
\<close>

definition float_limit :: real where
  "float_limit = 2 ^ 1024 - 2 ^ 970"

definition float_overflows :: "real \<Rightarrow> bool" where
  "float_overflows r \<longleftrightarrow> float_limit \<le> \<bar>r\<bar>"

definition py_float :: "int \<Rightarrow> py_error + real" where
  \<comment> \<open>The conversion of the int operand in \<open>int * float\<close>: an int beyond the float
      range raises.\<close>
  "py_float k = (if float_overflows (of_int k) then Inl OverflowError else Inr (of_int k))"

definition py_div :: "real \<Rightarrow> real \<Rightarrow> py_error + real" where
  \<comment> \<open>\<open>a / b\<close> on floats: a zero divisor raises.\<close>
  "py_div a b = (if b = 0 then Inl ZeroDivisionError else Inr (a / b))"

definition py_pow :: "real \<Rightarrow> int \<Rightarrow> py_error + real" where
  \<comment> \<open>\<open>x ** n\<close> for a float \<open>x\<close> and an integer \<open>n\<close>. The exponent is converted to a
      float first, and an int beyond the float range raises \<open>OverflowError\<close> there.
      Then \<open>x ** 0\<close> is \<open>1.0\<close> for every \<open>x\<close>, \<open>0.0\<close> to a negative power raises
      \<open>ZeroDivisionError\<close>, and a power beyond the float range raises
      \<open>OverflowError\<close>.\<close>
  "py_pow x n =
     (if float_overflows (of_int n) then Inl OverflowError
      else if 0 \<le> n then
        (if float_overflows (x ^ nat n) then Inl OverflowError else Inr (x ^ nat n))
      else if x = 0 then Inl ZeroDivisionError
      else if float_overflows (1 / x ^ nat (- n)) then Inl OverflowError
      else Inr (1 / x ^ nat (- n)))"

definition py_int :: "real \<Rightarrow> int" where
  \<comment> \<open>\<open>int(x)\<close> on a finite float truncates towards zero.\<close>
  "py_int x = (if 0 \<le> x then \<lfloor>x\<rfloor> else \<lceil>x\<rceil>)"

subsection \<open>The object and its slab table\<close>

text \<open>
  A slab is the pair \<open>(slab, rate)\<close> of the table. The bounds are ints, the last one
  is \<open>float('inf')\<close>. The rates are floats; the first rate of the table is the int
  \<open>0\<close>, whose product with an amount of at most 250000 is the same zero.
\<close>

datatype slab_bound = Amount int | PosInf

type_synonym tax_slab = "slab_bound \<times> real"

text \<open>
  The attributes of \<open>self\<close> that the engine reads. \<open>nifty50\<close> is \<open>None\<close> while the
  attribute is not yet assigned (reading it raises \<open>AttributeError\<close>), otherwise the
  \<open>Close\<close> column of the frame as a list of prices, empty for an empty frame.
\<close>

record guru =
  nifty50 :: "real list option"
  tax_slabs :: "string \<rightharpoonup> tax_slab list"

definition IND_slabs :: "tax_slab list" where
  "IND_slabs = [(Amount 250000, 0), (Amount 500000, 5 / 100),
                (Amount 1000000, 2 / 10), (PosInf, 3 / 10)]"

definition init_tax_slabs :: "string \<rightharpoonup> tax_slab list" where
  "init_tax_slabs = [''IND'' \<mapsto> IND_slabs]"

subsection \<open>\<open>calculate_tax\<close>\<close>

definition py_min :: "int \<Rightarrow> slab_bound \<Rightarrow> int" where
  \<comment> \<open>\<open>min(remaining, slab)\<close>: the second argument wins only when strictly smaller.\<close>
  "py_min remaining slab =
     (case slab of Amount w \<Rightarrow> (if w < remaining then w else remaining)
      | PosInf \<Rightarrow> remaining)"

text \<open>
  The \<open>for\<close> loop over the table, carrying \<open>tax\<close> and \<open>remaining\<close>; the \<open>break\<close> returns
  the tax accumulated so far. \<open>amount\<close> is an int, and \<open>amount * rate\<close> converts it
  to a float first, which raises when it is too large.
\<close>

fun slab_loop :: "tax_slab list \<Rightarrow> real \<Rightarrow> int \<Rightarrow> py_error + real" where
  "slab_loop [] tax remaining = Inr tax"
| "slab_loop ((slab, rate) # rest) tax remaining =
     (if remaining \<le> 0 then Inr tax
      else let amount = py_min remaining slab in
           case py_float amount of
             Inl e \<Rightarrow> Inl e
           | Inr a \<Rightarrow> slab_loop rest (tax + a * rate) (remaining - amount))"

definition calculate_tax_try :: "guru \<Rightarrow> int \<Rightarrow> int \<Rightarrow> py_error + real" where
  "calculate_tax_try self income deductions =
     (let taxable = max (income - deductions) 0 in
      case tax_slabs self ''IND'' of
        None \<Rightarrow> Inl KeyError
      | Some slabs \<Rightarrow> slab_loop slabs 0 taxable)"

definition calculate_tax :: "guru \<Rightarrow> int \<Rightarrow> int \<Rightarrow> real" where
  "calculate_tax self income deductions =
     (case calculate_tax_try self income deductions of Inl e \<Rightarrow> 0 | Inr tax \<Rightarrow> tax)"

text \<open>
  The slab walk in the words of the specification: at each slab, lowest first, consume
  \<open>amount = min(remaining, bound)\<close> at the slab's rate, add \<open>amount * rate\<close> to the tax,
  take \<open>amount\<close> off the remaining income, and stop once nothing remains. The stored
  bound is the width of the slab.
\<close>

definition spec_amount :: "real \<Rightarrow> slab_bound \<Rightarrow> real" where
  "spec_amount remaining bound =
     (case bound of Amount w \<Rightarrow> min remaining (of_int w) | PosInf \<Rightarrow> remaining)"

fun spec_slab_walk :: "tax_slab list \<Rightarrow> real \<Rightarrow> real" where
  "spec_slab_walk [] remaining = 0"
| "spec_slab_walk ((bound, rate) # rest) remaining =
     (if remaining \<le> 0 then 0
      else spec_amount remaining bound * rate
           + spec_slab_walk rest (remaining - spec_amount remaining bound))"

subsection \<open>\<open>tax_saving_options\<close>\<close>

text \<open>
  The three advisory strings, as the bytes of the source file. The first carries the
  six bytes that stand where the currency sign was meant.
\<close>

definition elss_text :: string where
  "elss_text = ''Invest '' @ [CHR 0xE2, CHR 0x80, CHR 0x9A, CHR 0xC3, CHR 0x87, CHR 0xCF, CHR 0x80]
               @ ''1.5L in ELSS (Section 80C)''"

definition health_text :: string where
  "health_text = ''Health Insurance (Section 80D)''"

definition nps_text :: string where
  "nps_text = ''NPS Investment (Section 80CCD)''"

definition append_if :: "bool \<Rightarrow> string \<Rightarrow> string list \<Rightarrow> string list" where
  \<comment> \<open>\<open>if c: suggestions.append(s)\<close> on the list built so far.\<close>
  "append_if c s suggestions = (if c then suggestions @ [s] else suggestions)"

definition tax_saving_options :: "real \<Rightarrow> string list" where
  "tax_saving_options income =
     (let suggestions = [];
          suggestions = append_if (income > 1500000) elss_text suggestions;
          suggestions = append_if (income > 700000) health_text suggestions;
          suggestions = append_if (income > 500000) nps_text suggestions
      in suggestions)"

text \<open>
  The same method on an argument of any Python type. A comparison of a string or of
  \<open>None\<close> with a number raises \<open>TypeError\<close>; the handler then leaves the \<open>try\<close>, and
  the method returns the list built so far.
\<close>

datatype py_value = PyNum real | PyStr string | PyNone

definition py_gt :: "py_value \<Rightarrow> real \<Rightarrow> py_error + bool" where
  "py_gt v k = (case v of PyNum x \<Rightarrow> Inr (x > k) | PyStr s \<Rightarrow> Inl TypeError
                | PyNone \<Rightarrow> Inl TypeError)"

fun suggestion_steps :: "(real \<times> string) list \<Rightarrow> py_value \<Rightarrow> string list \<Rightarrow> string list" where
  "suggestion_steps [] income suggestions = suggestions"
| "suggestion_steps ((threshold, s) # rest) income suggestions =
     (case py_gt income threshold of
        Inl e \<Rightarrow> suggestions
      | Inr b \<Rightarrow> suggestion_steps rest income (append_if b s suggestions))"

definition tax_saving_options_any :: "py_value \<Rightarrow> string list" where
  "tax_saving_options_any income =
     suggestion_steps
       [(1500000, elss_text), (700000, health_text), (500000, nps_text)] income []"

subsection \<open>The annuity formulas\<close>

definition calculate_sip_try :: "real \<Rightarrow> int \<Rightarrow> real \<Rightarrow> py_error + real" where
  "calculate_sip_try target years rate =
     (let monthly_rate = rate / 1200;
          months = years * 12 in
      case py_pow (1 + monthly_rate) months of
        Inl e \<Rightarrow> Inl e
      | Inr p \<Rightarrow> py_div (target * monthly_rate) (p - 1))"

definition calculate_sip :: "real \<Rightarrow> int \<Rightarrow> real \<Rightarrow> real" where
  "calculate_sip target years rate =
     (case calculate_sip_try target years rate of Inl e \<Rightarrow> 0 | Inr v \<Rightarrow> v)"

definition calculate_swp_try :: "real \<Rightarrow> int \<Rightarrow> real \<Rightarrow> py_error + real" where
  "calculate_swp_try corpus years rate =
     (let monthly_rate = rate / 1200;
          months = years * 12 in
      case py_pow (1 + monthly_rate) (- months) of
        Inl e \<Rightarrow> Inl e
      | Inr p \<Rightarrow> py_div (corpus * monthly_rate) (1 - p))"

definition calculate_swp :: "real \<Rightarrow> int \<Rightarrow> real \<Rightarrow> real" where
  "calculate_swp corpus years rate =
     (case calculate_swp_try corpus years rate of Inl e \<Rightarrow> 0 | Inr v \<Rightarrow> v)"

definition calculate_emi_try :: "real \<Rightarrow> real \<Rightarrow> int \<Rightarrow> py_error + real" where
  "calculate_emi_try principal' rate years =
     (let monthly_rate = rate / 1200;
          months = years * 12 in
      case py_pow (1 + monthly_rate) months of
        Inl e \<Rightarrow> Inl e
      | Inr p \<Rightarrow>
          (case py_pow (1 + monthly_rate) months of
             Inl e \<Rightarrow> Inl e
           | Inr q \<Rightarrow> py_div (principal' * monthly_rate * p) (q - 1)))"

definition calculate_emi :: "real \<Rightarrow> real \<Rightarrow> int \<Rightarrow> real" where
  "calculate_emi principal' rate years =
     (case calculate_emi_try principal' rate years of Inl e \<Rightarrow> 0 | Inr v \<Rightarrow> v)"

subsection \<open>\<open>create_goal_plan\<close>\<close>

text \<open>
  The returned dictionary has the three keys below, or is the empty dictionary \<open>{}\<close>
  of the \<open>except\<close> branch, which is \<open>None\<close> here. The projection \<open>**\<close> is the one
  operation of the body that can raise; the two annuity calls catch their own faults.
\<close>

record goal_plan =
  future_value :: real
  monthly_sip :: real
  monthly_swp :: real

definition create_goal_plan_try ::
  "string \<Rightarrow> real \<Rightarrow> int \<Rightarrow> real \<Rightarrow> py_error + goal_plan" where
  "create_goal_plan_try goal_type current_cost years inflation =
     (case py_pow (1 + inflation / 100) years of
        Inl e \<Rightarrow> Inl e
      | Inr p \<Rightarrow>
          (let future_value = current_cost * p;
               sip = calculate_sip future_value years 12;
               swp = calculate_swp future_value 10 8
           in Inr \<lparr>future_value = future_value, monthly_sip = sip, monthly_swp = swp\<rparr>))"

definition create_goal_plan :: "string \<Rightarrow> real \<Rightarrow> int \<Rightarrow> real \<Rightarrow> goal_plan option" where
  "create_goal_plan goal_type current_cost years inflation =
     (case create_goal_plan_try goal_type current_cost years inflation of
        Inl e \<Rightarrow> None
      | Inr plan \<Rightarrow> Some plan)"

subsection \<open>\<open>_calculate_risk_profile\<close>\<close>

text \<open>
  \<open>Series.pct_change()\<close> divides each price by the one before it and subtracts one,
  in floating point, where a zero divisor does not raise: it gives an infinity, or
  not-a-number for \<open>0 / 0\<close>. The first entry has no predecessor and is not-a-number.
\<close>

datatype np_float = Num real | Infinity | NegInfinity | NaN

definition np_change :: "real \<Rightarrow> real \<Rightarrow> np_float" where
  "np_change prev cur =
     (if prev \<noteq> 0 then Num (cur / prev - 1)
      else if 0 < cur then Infinity
      else if cur < 0 then NegInfinity
      else NaN)"

fun changes :: "real list \<Rightarrow> np_float list" where
  "changes (prev # cur # rest) = np_change prev cur # changes (cur # rest)"
| "changes _ = []"

definition pct_change :: "real list \<Rightarrow> np_float list" where
  "pct_change closes = (if closes = [] then [] else NaN # changes closes)"

text \<open>
  \<open>Series.std()\<close>: the sample standard deviation (\<open>ddof = 1\<close>) of the entries that
  are not not-a-number. With fewer than two such entries, or with an infinite one
  among them, the result is not-a-number, which is \<open>None\<close> here.
\<close>

fun nums :: "np_float list \<Rightarrow> real list" where
  "nums [] = []"
| "nums (Num x # xs) = x # nums xs"
| "nums (_ # xs) = nums xs"

definition has_infinite :: "np_float list \<Rightarrow> bool" where
  "has_infinite xs = (Infinity \<in> set xs \<or> NegInfinity \<in> set xs)"

definition mean :: "real list \<Rightarrow> real" where
  "mean xs = sum_list xs / real (length xs)"

definition std :: "np_float list \<Rightarrow> real option" where
  "std xs =
     (let vals = nums xs in
      if has_infinite xs \<or> length vals < 2 then None
      else Some (sqrt (sum_list (map (\<lambda>x. (mean vals - x)\<^sup>2) vals)
                       / real (length vals - 1))))"

definition calculate_risk_profile_try :: "guru \<Rightarrow> py_error + int" where
  "calculate_risk_profile_try self =
     (case nifty50 self of
        None \<Rightarrow> Inl AttributeError
      | Some closes \<Rightarrow>
          if closes \<noteq> [] then
            (case std (pct_change closes) of
               None \<Rightarrow> Inl ValueError
             | Some s \<Rightarrow>
                 (let volatility = s * sqrt 252
                  in Inr (min (py_int (10 - volatility * 100)) 10)))
          else Inr 5)"

definition calculate_risk_profile :: "guru \<Rightarrow> int" where
  "calculate_risk_profile self =
     (case calculate_risk_profile_try self of Inl e \<Rightarrow> 5 | Inr score \<Rightarrow> score)"

text \<open>
  \<open>__init__\<close> computes the risk profile first, before \<open>nifty50\<close> is assigned, and
  then stores the downloaded frame and the slab table.
\<close>

definition init_risk_profile :: int where
  "init_risk_profile = calculate_risk_profile \<lparr>nifty50 = None, tax_slabs = Map.empty\<rparr>"

definition init :: "real list \<Rightarrow> guru" where
  "init index_data = \<lparr>nifty50 = Some index_data, tax_slabs = init_tax_slabs\<rparr>"

subsection \<open>Well-formed slabs\<close>

text \<open>
  A slab whose width and rate are not negative. The engine does not check it; the
  table of \<open>__init__\<close> satisfies it.
\<close>

fun slab_ok :: "tax_slab \<Rightarrow> bool" where
  "slab_ok (Amount w, rate) = (0 \<le> w \<and> 0 \<le> rate)"
| "slab_ok (PosInf, rate) = (0 \<le> rate)"

section \<open>The float range\<close>

lemma float_limit_ge: "2 ^ 1023 \<le> float_limit"
proof -
  have "(2::real) ^ 970 \<le> 2 ^ 1023" by (rule power_increasing) simp_all
  moreover have "(2::real) ^ 1024 = 2 ^ 1023 + 2 ^ 1023"
  proof -
    have "(2::real) ^ Suc 1023 = 2 * 2 ^ 1023" by (rule power_Suc)
    then show ?thesis by simp
  qed
  ultimately show ?thesis by (simp add: float_limit_def)
qed

lemma float_limit_le: "float_limit \<le> 2 ^ 1024"
  by (simp add: float_limit_def)

lemma small_in_range: "\<bar>x\<bar> \<le> 2 ^ 64 \<Longrightarrow> \<not> float_overflows x"
proof -
  assume a: "\<bar>x\<bar> \<le> 2 ^ 64"
  have "(2::real) ^ 64 < 2 ^ 1023" by (rule power_strict_increasing) simp_all
  then show ?thesis using a float_limit_ge by (simp add: float_overflows_def)
qed

lemma py_float_small: "\<bar>k\<bar> \<le> 2 ^ 64 \<Longrightarrow> py_float k = Inr (of_int k)"
proof -
  assume "\<bar>k\<bar> \<le> 2 ^ 64"
  then have "\<bar>real_of_int k\<bar> \<le> 2 ^ 64"
    by (metis of_int_abs of_int_le_iff of_int_numeral of_int_power)
  then show ?thesis by (simp add: py_float_def small_in_range)
qed

lemma py_float_pos: "0 \<le> k \<Longrightarrow>
  py_float k = (if float_limit \<le> of_int k then Inl OverflowError else Inr (of_int k))"
  by (simp add: py_float_def float_overflows_def)

section \<open>The slab walk\<close>

text \<open>
  On the table of \<open>__init__\<close> the only amount that can leave the float range is the
  one of the last, unbounded slab: the taxable income beyond 1750000.
\<close>

lemma tax_try_init:
  "calculate_tax_try (init d) income deductions =
     (if float_limit \<le> of_int (income - deductions - 1750000) then Inl OverflowError
      else Inr (spec_slab_walk IND_slabs (of_int (max (income - deductions) 0))))"
proof -
  define t where "t = max (income - deductions) 0"
  have slabs: "tax_slabs (init d) ''IND'' = Some IND_slabs"
    by (simp add: init_def init_tax_slabs_def)
  have loop: "calculate_tax_try (init d) income deductions = slab_loop IND_slabs 0 t"
    by (simp add: calculate_tax_try_def slabs t_def)
  have lim: "(1750000::real) < float_limit"
    using small_in_range [of 1750000] by (simp add: float_overflows_def)
  have over: "float_limit \<le> of_int (income - deductions - 1750000)
                \<longleftrightarrow> float_limit \<le> of_int (t - 1750000)"
    using lim by (auto simp: t_def max_def)
  have t0: "0 \<le> t" by (simp add: t_def)
  consider "t \<le> 250000" | "250000 < t" "t \<le> 750000" | "750000 < t" "t \<le> 1750000"
    | "1750000 < t" by linarith
  then have "slab_loop IND_slabs 0 t =
     (if float_limit \<le> of_int (t - 1750000) then Inl OverflowError
      else Inr (spec_slab_walk IND_slabs (of_int t)))"
  proof cases
    case 1
    then have "\<not> float_limit \<le> of_int (t - 1750000)" using lim by simp
    moreover have "py_float t = Inr (of_int t)" using 1 t0 by (intro py_float_small) simp
    ultimately show ?thesis using 1 t0
      by (simp add: IND_slabs_def py_min_def spec_amount_def Let_def)
  next
    case 2
    then have "\<not> float_limit \<le> of_int (t - 1750000)" using lim by simp
    moreover have "py_float (t - 250000) = Inr (of_int (t - 250000))"
      using 2 by (intro py_float_small) simp
    ultimately show ?thesis using 2
      by (simp add: IND_slabs_def py_min_def spec_amount_def Let_def py_float_small)
  next
    case 3
    then have "\<not> float_limit \<le> of_int (t - 1750000)" using lim by simp
    moreover have "py_float (t - 750000) = Inr (of_int (t - 750000))"
      using 3 by (intro py_float_small) simp
    ultimately show ?thesis using 3
      by (simp add: IND_slabs_def py_min_def spec_amount_def Let_def py_float_small)
  next
    case 4
    then have "py_float (t - 1750000) =
      (if float_limit \<le> of_int (t - 1750000) then Inl OverflowError
       else Inr (of_int (t - 1750000)))"
      by (intro py_float_pos) simp
    then show ?thesis using 4
      by (simp add: IND_slabs_def py_min_def spec_amount_def Let_def py_float_small)
  qed
  then show ?thesis by (simp only: loop over flip: t_def)
qed

text \<open>
  C1. The worked examples of the tax computation on the table of \<open>__init__\<close>:
  an income of 0 and an income of 200000 owe nothing. At an income of 600000 the loop
  takes the first 250000 at rate 0 and the remaining 350000 at rate 0.05, because the
  second stored bound, 500000, is consumed as a width: the tax is 17500, not the 32500
  of the worked example.
\<close>

theorem tax_worked_examples:
  "calculate_tax (init []) 0 0 = 0 \<and> calculate_tax (init []) 200000 0 = 0
   \<and> calculate_tax (init []) 600000 0 = 17500 \<and> calculate_tax (init []) 600000 0 \<noteq> 32500"
proof -
  have lim: "(0::real) < float_limit"
    using small_in_range [of 0] by (simp add: float_overflows_def)
  show ?thesis using lim
    by (simp add: calculate_tax_def tax_try_init IND_slabs_def spec_amount_def)
qed

text \<open>
  C2, as stated, at an income of \<open>10 ** 309\<close> with no deductions: the amount of the
  last slab is an int beyond the float range, its product with the rate 0.3 raises
  \<open>OverflowError\<close>, and the tax returned is 0, not the value of the walk.
\<close>

theorem tax_overflow_not_walk:
  "calculate_tax (init []) (10 ^ 309) 0
     \<noteq> spec_slab_walk IND_slabs (of_int (max (10 ^ 309 - 0) 0))"
proof -
  have "(2::real) ^ 1024 \<le> 10 ^ 309 - 1750000" by simp
  then have over: "float_limit \<le> real_of_int (10 ^ 309 - 0 - 1750000)"
    using float_limit_le by simp
  have "calculate_tax (init []) (10 ^ 309) 0 = 0"
    by (simp only: calculate_tax_def tax_try_init over if_True sum.case)
  moreover have "spec_slab_walk IND_slabs (of_int (max (10 ^ 309 - 0) 0)) \<noteq> 0"
    by (simp add: IND_slabs_def spec_amount_def)
  ultimately show ?thesis by simp
qed

text \<open>
  C2, amended. For every income and deductions with
  \<open>income - deductions - 1750000 < 2 ^ 1024 - 2 ^ 970\<close>, the tax on the table of
  \<open>__init__\<close> is the progressive slab walk of the specification on
  \<open>max (income - deductions) 0\<close>, each stored bound being the width of income taxed at
  the slab's rate. From that bound on, the last multiplication raises \<open>OverflowError\<close>
  and the tax is 0.
\<close>

theorem tax_is_slab_walk:
  "(real_of_int (income - deductions - 1750000) < float_limit \<longrightarrow>
      calculate_tax (init d) income deductions
        = spec_slab_walk IND_slabs (of_int (max (income - deductions) 0)))
   \<and> (float_limit \<le> real_of_int (income - deductions - 1750000) \<longrightarrow>
      calculate_tax_try (init d) income deductions = Inl OverflowError
      \<and> calculate_tax (init d) income deductions = 0)"
  by (simp add: calculate_tax_def tax_try_init)

theorem tax_is_slab_walk_witness:
  "calculate_tax (init []) 1500000 150000 = spec_slab_walk IND_slabs 1350000
   \<and> spec_slab_walk IND_slabs 1350000 = 145000
   \<and> calculate_tax_try (init []) (2 ^ 1024 + 1750000) 0 = Inl OverflowError
   \<and> calculate_tax (init []) (2 ^ 1024 + 1750000) 0 = 0"
proof -
  have 1: "real_of_int (1500000 - 150000 - 1750000) < float_limit"
    using small_in_range [of 0] by (simp add: float_overflows_def)
  have 2: "float_limit \<le> real_of_int (2 ^ 1024 + 1750000 - 0 - 1750000)"
    using float_limit_le by simp
  have 3: "spec_slab_walk IND_slabs 1350000 = 145000"
    by (simp add: IND_slabs_def spec_amount_def)
  show ?thesis
    using tax_is_slab_walk [of 1500000 150000 "[]"] 1
      tax_is_slab_walk [of "2 ^ 1024 + 1750000" 0 "[]"] 2 3
    by simp
qed

subsection \<open>Monotonicity\<close>

lemma spec_amount_mono: "r1 \<le> r2 \<Longrightarrow> spec_amount r1 b \<le> spec_amount r2 b"
  by (cases b) (auto simp: spec_amount_def)

lemma spec_rest_mono: "r1 \<le> r2 \<Longrightarrow> r1 - spec_amount r1 b \<le> r2 - spec_amount r2 b"
  by (cases b) (auto simp: spec_amount_def min_def)

lemma spec_amount_nonneg: "0 < r \<Longrightarrow> slab_ok (b, rate) \<Longrightarrow> 0 \<le> spec_amount r b"
  by (cases b) (auto simp: spec_amount_def)

lemma walk_nonneg: "list_all slab_ok slabs \<Longrightarrow> 0 \<le> spec_slab_walk slabs r"
proof (induction slabs arbitrary: r)
  case Nil
  show ?case by simp
next
  case (Cons s slabs)
  obtain b rate where s: "s = (b, rate)" by (cases s)
  from Cons.prems have ok: "slab_ok (b, rate)" and rest: "list_all slab_ok slabs"
    by (simp_all add: s)
  have rate: "0 \<le> rate" using ok by (cases b) simp_all
  show ?case
  proof (cases "r \<le> 0")
    case True
    then show ?thesis by (simp add: s)
  next
    case False
    then have "0 \<le> spec_amount r b" using spec_amount_nonneg ok by simp
    then have "0 \<le> spec_amount r b * rate" using rate by simp
    moreover have "0 \<le> spec_slab_walk slabs (r - spec_amount r b)" using Cons.IH rest .
    ultimately show ?thesis using False by (simp add: s)
  qed
qed

lemma walk_mono:
  "list_all slab_ok slabs \<Longrightarrow> r1 \<le> r2 \<Longrightarrow> spec_slab_walk slabs r1 \<le> spec_slab_walk slabs r2"
proof (induction slabs arbitrary: r1 r2)
  case Nil
  show ?case by simp
next
  case (Cons s slabs)
  obtain b rate where s: "s = (b, rate)" by (cases s)
  from Cons.prems have ok: "slab_ok (b, rate)" and rest: "list_all slab_ok slabs"
    by (simp_all add: s)
  have rate: "0 \<le> rate" using ok by (cases b) simp_all
  show ?case
  proof (cases "r1 \<le> 0")
    case True
    then have "spec_slab_walk (s # slabs) r1 = 0" by (simp add: s)
    then show ?thesis using walk_nonneg [OF Cons.prems(1)] by simp
  next
    case False
    then have pos2: "\<not> r2 \<le> 0" using Cons.prems(2) by simp
    have "spec_amount r1 b * rate \<le> spec_amount r2 b * rate"
      using spec_amount_mono [OF Cons.prems(2)] rate by (simp add: mult_right_mono)
    moreover have "spec_slab_walk slabs (r1 - spec_amount r1 b)
                     \<le> spec_slab_walk slabs (r2 - spec_amount r2 b)"
      using Cons.IH [OF rest spec_rest_mono [OF Cons.prems(2)]] .
    ultimately show ?thesis using False pos2 by (simp add: s)
  qed
qed

lemma IND_slabs_ok: "list_all slab_ok IND_slabs"
  by (simp add: IND_slabs_def)

lemma tax_nonneg: "0 \<le> calculate_tax (init d) income deductions"
  using walk_nonneg [OF IND_slabs_ok] by (simp add: calculate_tax_def tax_try_init)

text \<open>
  C10, as stated, at the incomes 600000 and \<open>10 ** 309\<close>: the first owes 17500, the
  second raises \<open>OverflowError\<close> in the last slab and owes 0.
\<close>

theorem tax_overflow_not_monotone:
  "(600000::int) \<le> 10 ^ 309
   \<and> \<not> calculate_tax (init []) 600000 0 \<le> calculate_tax (init []) (10 ^ 309) 0"
proof -
  have "(2::real) ^ 1024 \<le> 10 ^ 309 - 1750000" by simp
  then have over: "float_limit \<le> real_of_int (10 ^ 309 - 0 - 1750000)"
    using float_limit_le by simp
  have big: "calculate_tax (init []) (10 ^ 309) 0 = 0"
    by (simp only: calculate_tax_def tax_try_init over if_True sum.case)
  have lim: "(0::real) < float_limit"
    using small_in_range [of 0] by (simp add: float_overflows_def)
  have small: "calculate_tax (init []) 600000 0 = 17500" using lim
    by (simp add: calculate_tax_def tax_try_init IND_slabs_def spec_amount_def)
  show ?thesis unfolding big small by simp
qed

text \<open>
  C10, amended. The tax on the table of \<open>__init__\<close> is never negative, and for fixed
  deductions and incomes \<open>i1 \<le> i2\<close> with
  \<open>i2 - deductions - 1750000 < 2 ^ 1024 - 2 ^ 970\<close> the tax at \<open>i1\<close> is at most the tax
  at \<open>i2\<close>.
\<close>

theorem tax_monotone:
  "0 \<le> calculate_tax (init d) i1 deductions
   \<and> (i1 \<le> i2 \<and> real_of_int (i2 - deductions - 1750000) < float_limit \<longrightarrow>
        calculate_tax (init d) i1 deductions \<le> calculate_tax (init d) i2 deductions)"
proof (intro conjI impI)
  show "0 \<le> calculate_tax (init d) i1 deductions" by (rule tax_nonneg)
next
  assume a: "i1 \<le> i2 \<and> real_of_int (i2 - deductions - 1750000) < float_limit"
  then have r1: "real_of_int (i1 - deductions - 1750000) < float_limit" by simp
  have "max (i1 - deductions) 0 \<le> max (i2 - deductions) 0" using a by auto
  then have "real_of_int (max (i1 - deductions) 0) \<le> real_of_int (max (i2 - deductions) 0)"
    by (simp only: of_int_le_iff)
  then show "calculate_tax (init d) i1 deductions \<le> calculate_tax (init d) i2 deductions"
    using a r1 walk_mono [OF IND_slabs_ok]
    by (simp add: calculate_tax_def tax_try_init)
qed

theorem tax_monotone_witness:
  "0 \<le> calculate_tax (init []) 300000 0
   \<and> calculate_tax (init []) 300000 0 \<le> calculate_tax (init []) 600000 0"
proof -
  have "real_of_int (600000 - 0 - 1750000) < float_limit"
    using small_in_range [of 0] by (simp add: float_overflows_def)
  then show ?thesis using tax_monotone [of "[]" 300000 0 600000] by simp
qed

section \<open>The annuity formulas\<close>

lemma one_in_range: "\<not> float_overflows 1"
  by (rule small_in_range) simp

lemma zero_in_range: "\<not> float_overflows 0"
  by (rule small_in_range) simp

lemma float_overflows_minus: "float_overflows (- r) \<longleftrightarrow> float_overflows r"
  by (simp add: float_overflows_def)

lemma py_pow_zero_exp: "py_pow x 0 = Inr 1"
  by (simp add: py_pow_def one_in_range zero_in_range)

lemma py_pow_one:
  "py_pow 1 n = (if float_overflows (of_int n) then Inl OverflowError else Inr 1)"
  by (simp add: py_pow_def one_in_range)

lemma py_div_zero: "py_div a 0 = Inl ZeroDivisionError"
  by (simp add: py_div_def)


lemma py_pow_overflow:
  "0 \<le> n \<Longrightarrow> float_overflows (x ^ nat n) \<Longrightarrow> py_pow x n = Inl OverflowError"
  by (simp add: py_pow_def)

lemma months_in_range: "\<not> float_overflows (of_int (k * 12)) \<Longrightarrow> \<not> float_overflows (of_int k)"
  by (simp add: float_overflows_def abs_mult)

lemma pow_overflow:
  fixes x :: real
  assumes "1 \<le> x" and "2 ^ m \<le> x ^ k" and "1024 \<le> m * j" and "k * j \<le> n"
  shows "float_overflows (x ^ n)"
proof -
  have "float_limit \<le> (2::real) ^ 1024" by (rule float_limit_le)
  also have "\<dots> \<le> 2 ^ (m * j)" using assms(3) by (intro power_increasing) simp_all
  also have "\<dots> = ((2::real) ^ m) ^ j" by (rule power_mult)
  also have "\<dots> \<le> (x ^ k) ^ j" using assms(2) by (intro power_mono) simp_all
  also have "\<dots> = x ^ (k * j)" by (rule power_mult [symmetric])
  also have "\<dots> \<le> x ^ n" using assms(1,4) by (intro power_increasing)
  finally have "float_limit \<le> x ^ n" .
  moreover have "0 \<le> x ^ n" using assms(1) by simp
  ultimately show ?thesis by (simp add: float_overflows_def)
qed

text \<open>
  C6. For every target, corpus and principal, when \<open>years = 0\<close> or \<open>rate = 0\<close> the
  annuity factor is zero: the body of each of \<open>calculate_sip\<close>, \<open>calculate_swp\<close> and
  \<open>calculate_emi\<close> raises \<open>ZeroDivisionError\<close>, and the method returns 0. (When the
  number of months is an int beyond the float range, the power raises \<open>OverflowError\<close>
  before the division is reached, and the method returns 0 all the same.)
\<close>

theorem annuity_degenerate:
  "years = 0 \<or> rate = 0 \<Longrightarrow>
     calculate_sip_try amount years rate
       = Inl (if float_overflows (of_int (years * 12)) then OverflowError
              else ZeroDivisionError)
     \<and> calculate_sip amount years rate = 0
     \<and> calculate_swp_try amount years rate
       = Inl (if float_overflows (of_int (years * 12)) then OverflowError
              else ZeroDivisionError)
     \<and> calculate_swp amount years rate = 0
     \<and> calculate_emi_try amount rate years
       = Inl (if float_overflows (of_int (years * 12)) then OverflowError
              else ZeroDivisionError)
     \<and> calculate_emi amount rate years = 0"
proof -
  assume a: "years = 0 \<or> rate = 0"
  have m: "float_overflows (- (real_of_int years * 12)) = float_overflows (real_of_int years * 12)"
    by (rule float_overflows_minus)
  show ?thesis
  proof (cases "years = 0")
    case True
    then show ?thesis
      by (simp add: calculate_sip_def calculate_sip_try_def calculate_swp_def
          calculate_swp_try_def calculate_emi_def calculate_emi_try_def py_pow_zero_exp
          py_div_zero zero_in_range)
  next
    case False
    then have "rate = 0" using a by simp
    then show ?thesis
      by (simp add: calculate_sip_def calculate_sip_try_def calculate_swp_def
          calculate_swp_try_def calculate_emi_def calculate_emi_try_def py_pow_one
          py_div_zero m)
  qed
qed

theorem annuity_degenerate_witness:
  "calculate_sip 5000000 0 12 = 0 \<and> calculate_swp 5000000 0 8 = 0
   \<and> calculate_emi 5000000 (21 / 2) 0 = 0
   \<and> calculate_sip 5000000 10 0 = 0 \<and> calculate_swp 5000000 10 0 = 0
   \<and> calculate_emi 5000000 0 15 = 0
   \<and> calculate_sip_try 5000000 10 0 = Inl ZeroDivisionError"
  using annuity_degenerate [of 0 12 5000000] annuity_degenerate [of 0 8 5000000]
    annuity_degenerate [of 0 "21 / 2" 5000000] annuity_degenerate [of 10 0 5000000]
    annuity_degenerate [of 15 0 5000000] small_in_range [of "real_of_int (10 * 12)"]
  by simp

subsection \<open>Total interest of a loan\<close>

lemma emi_cases:
  assumes "0 < years" "0 \<le> rate"
  shows "calculate_emi p rate years = 0
         \<or> (1 < (1 + rate / 1200) ^ nat (years * 12)
            \<and> calculate_emi p rate years
                = p * (rate / 1200) * (1 + rate / 1200) ^ nat (years * 12)
                  / ((1 + rate / 1200) ^ nat (years * 12) - 1))"
proof -
  define q where "q = (1 + rate / 1200) ^ nat (years * 12)"
  have q1: "1 \<le> q" unfolding q_def using assms by (intro one_le_power) simp
  have pow: "py_pow (1 + rate / 1200) (years * 12)
               = (if float_overflows (of_int (years * 12)) \<or> float_overflows q
                  then Inl OverflowError else Inr q)"
    using assms by (simp add: py_pow_def q_def)
  show ?thesis
  proof (cases "float_overflows (of_int (years * 12)) \<or> float_overflows q \<or> q = 1")
    case True
    then have "calculate_emi p rate years = 0"
      by (auto simp: calculate_emi_def calculate_emi_try_def pow py_div_def)
    then show ?thesis by simp
  next
    case False
    then have "1 < q" using q1 by simp
    moreover have "calculate_emi p rate years = p * (rate / 1200) * q / (q - 1)"
      using False by (simp add: calculate_emi_def calculate_emi_try_def pow py_div_def)
    ultimately show ?thesis by (simp add: q_def)
  qed
qed

text \<open>
  C5, as stated, at a rate of 0: the body of \<open>calculate_emi\<close> divides by zero, the
  method returns 0, and twelve payments of 0 on a loan of 100000 leave the total
  interest at -100000.
\<close>

theorem emi_zero_rate_interest_negative:
  "\<not> (0 \<le> calculate_emi 100000 0 1 * of_int (1 * 12) - 100000)"
  by (simp add: calculate_emi_def calculate_emi_try_def py_pow_def py_div_def one_in_range
      small_in_range)

text \<open>
  C5, amended. For every principal > 0, years > 0 and rate \<ge> 0, the payment
  \<open>calculate_emi principal rate years\<close> is not negative, so the total interest
  \<open>calculate_emi principal rate years * (years * 12) - principal\<close> is at least
  \<open>- principal\<close>; at a rate of 0 the payment is 0 and the total interest is exactly
  \<open>- principal\<close>.
\<close>

theorem emi_payment_nonneg:
  assumes "0 < p" "0 < years" "0 \<le> rate"
  shows "0 \<le> calculate_emi p rate years
         \<and> - p \<le> calculate_emi p rate years * of_int (years * 12) - p
         \<and> (rate = 0 \<longrightarrow> calculate_emi p rate years = 0
               \<and> calculate_emi p rate years * of_int (years * 12) - p = - p)"
proof -
  have nonneg: "0 \<le> calculate_emi p rate years"
    using emi_cases [OF assms(2,3), of p] assms by auto
  have "0 \<le> calculate_emi p rate years * of_int (years * 12)"
    using nonneg assms(2) by simp
  moreover have "rate = 0 \<longrightarrow> calculate_emi p rate years = 0"
    by (simp add: calculate_emi_def calculate_emi_try_def py_pow_one py_div_zero)
  ultimately show ?thesis using nonneg by simp
qed

theorem emi_payment_nonneg_witness:
  "0 \<le> calculate_emi 5000000 (21 / 2) 15
   \<and> - 5000000 \<le> calculate_emi 5000000 (21 / 2) 15 * of_int (15 * 12) - 5000000
   \<and> calculate_emi 100000 0 1 = 0
   \<and> calculate_emi 100000 0 1 * of_int (1 * 12) - 100000 = - 100000"
  using emi_payment_nonneg [of 5000000 15 "21 / 2"] emi_payment_nonneg [of 100000 1 0]
  by simp

section \<open>The goal plan\<close>




section \<open>Faults and their defaults\<close>

lemma suggestions_any_num: "tax_saving_options_any (PyNum x) = tax_saving_options x"
  by (simp add: tax_saving_options_any_def tax_saving_options_def py_gt_def)

lemma py_float_fault: "py_float k = Inl e \<Longrightarrow> float_limit \<le> \<bar>real_of_int k\<bar>"
  by (simp add: py_float_def float_overflows_def split: if_splits)

lemma last_slab_overflow:
  assumes "py_float (max (income - deductions) 0 - 1750000) = Inl e"
  shows "float_limit \<le> real_of_int (income - deductions - 1750000)"
proof -
  have lim: "(1750000::real) < float_limit"
    using small_in_range [of 1750000] by (simp add: float_overflows_def)
  have "float_limit \<le> \<bar>real_of_int (max (income - deductions) 0 - 1750000)\<bar>"
    using assms by (rule py_float_fault)
  then show ?thesis using lim by (auto simp: max_def abs_if split: if_splits)
qed

text \<open>
  C9, as stated, at a goal plan whose projection raises: the handler of
  \<open>create_goal_plan\<close> returns the empty dictionary, which holds no amount at all, and
  not a plan of zeros.
\<close>

theorem goal_plan_fault_not_zero:
  "create_goal_plan_try ''Retirement'' 500000 20000 8 = Inl OverflowError
   \<and> create_goal_plan ''Retirement'' 500000 20000 8 = None
   \<and> create_goal_plan ''Retirement'' 500000 20000 8
        \<noteq> Some \<lparr>future_value = 0, monthly_sip = 0, monthly_swp = 0\<rparr>"
proof -
  have "float_overflows ((1 + 8 / 100) ^ nat 20000)"
    by (rule pow_overflow [where m = 1 and k = 10 and j = 1024]) (simp_all add: power_divide)
  then have "py_pow (1 + 8 / 100) 20000 = Inl OverflowError"
    by (intro py_pow_overflow) simp_all
  then have "create_goal_plan_try ''Retirement'' 500000 20000 8 = Inl OverflowError"
    by (simp only: create_goal_plan_try_def sum.case)
  then show ?thesis by (simp add: create_goal_plan_def)
qed

text \<open>
  C9, amended. A fault raised at a point of computation inside an operation is caught
  there and turned into the operation's default. A power that raises, or an annuity
  factor of zero, makes \<open>calculate_sip\<close>, \<open>calculate_emi\<close> and \<open>calculate_swp\<close> return 0.
  An amount of the last slab beyond the float range makes \<open>calculate_tax\<close> return 0. An
  unassigned \<open>nifty50\<close>, or a volatility that is not a number, makes
  \<open>_calculate_risk_profile\<close> return 5. An income that cannot be compared with a number
  makes \<open>tax_saving_options\<close> return the empty list. A projection that raises makes
  \<open>create_goal_plan\<close> return the empty dictionary, not 0.
\<close>

theorem faults_to_defaults:
  "(py_pow (1 + r1 / 1200) (y1 * 12) = Inl e1 \<or> py_pow (1 + r1 / 1200) (y1 * 12) = Inr 1
      \<longrightarrow> calculate_sip target y1 r1 = 0 \<and> calculate_emi p r1 y1 = 0)
   \<and> (py_pow (1 + r2 / 1200) (- (y2 * 12)) = Inl e2
        \<or> py_pow (1 + r2 / 1200) (- (y2 * 12)) = Inr 1
      \<longrightarrow> calculate_swp corpus y2 r2 = 0)
   \<and> (py_float (max (income - deductions) 0 - 1750000) = Inl e3
      \<longrightarrow> calculate_tax (init d) income deductions = 0)
   \<and> (nifty50 self = None \<or> (nifty50 self = Some closes \<and> closes \<noteq> []
                               \<and> std (pct_change closes) = None)
      \<longrightarrow> calculate_risk_profile self = 5)
   \<and> (py_gt v 1500000 = Inl e4 \<longrightarrow> tax_saving_options_any v = [])
   \<and> (py_pow (1 + inflation / 100) years = Inl e5
      \<longrightarrow> create_goal_plan goal_type current_cost years inflation = None)"
proof (intro conjI impI)
  assume "py_pow (1 + r1 / 1200) (y1 * 12) = Inl e1 \<or> py_pow (1 + r1 / 1200) (y1 * 12) = Inr 1"
  then show "calculate_sip target y1 r1 = 0"
    by (auto simp: calculate_sip_def calculate_sip_try_def py_div_zero)
next
  assume "py_pow (1 + r1 / 1200) (y1 * 12) = Inl e1 \<or> py_pow (1 + r1 / 1200) (y1 * 12) = Inr 1"
  then show "calculate_emi p r1 y1 = 0"
    by (auto simp: calculate_emi_def calculate_emi_try_def py_div_zero)
next
  assume "py_pow (1 + r2 / 1200) (- (y2 * 12)) = Inl e2
          \<or> py_pow (1 + r2 / 1200) (- (y2 * 12)) = Inr 1"
  then show "calculate_swp corpus y2 r2 = 0"
    by (auto simp: calculate_swp_def calculate_swp_try_def py_div_zero)
next
  assume "py_float (max (income - deductions) 0 - 1750000) = Inl e3"
  then have "float_limit \<le> real_of_int (income - deductions - 1750000)"
    by (rule last_slab_overflow)
  then show "calculate_tax (init d) income deductions = 0"
    by (simp add: calculate_tax_def tax_try_init)
next
  assume "nifty50 self = None
          \<or> (nifty50 self = Some closes \<and> closes \<noteq> [] \<and> std (pct_change closes) = None)"
  then show "calculate_risk_profile self = 5"
    by (auto simp: calculate_risk_profile_def calculate_risk_profile_try_def)
next
  assume "py_gt v 1500000 = Inl e4"
  then show "tax_saving_options_any v = []"
    by (simp add: tax_saving_options_any_def)
next
  assume "py_pow (1 + inflation / 100) years = Inl e5"
  then show "create_goal_plan goal_type current_cost years inflation = None"
    by (simp add: create_goal_plan_def create_goal_plan_try_def)
qed

theorem faults_to_defaults_witness:
  "calculate_sip 5000000 10 613200 = 0
   \<and> calculate_emi 1000 613200 10 = 0
   \<and> calculate_swp 5000000 0 8 = 0
   \<and> calculate_tax (init []) (10 ^ 310) 0 = 0
   \<and> calculate_risk_profile (init [22000, 22100]) = 5
   \<and> tax_saving_options_any (PyStr ''1600000'') = []
   \<and> create_goal_plan ''Travel'' 1000 2 (10 ^ 200) = None"
proof -
  have "float_overflows ((1 + 613200 / 1200) ^ nat (10 * 12))"
    by (rule pow_overflow [where m = 9 and k = 1 and j = 114]) simp_all
  then have 1: "py_pow (1 + 613200 / 1200) (10 * 12) = Inl OverflowError"
    by (intro py_pow_overflow) simp_all
  have 2: "py_pow (1 + 8 / 1200) (- (0 * 12)) = Inr 1"
    by (simp add: py_pow_zero_exp)
  have "(2::real) ^ 1024 \<le> 10 ^ 310 - 1750000" by simp
  then have "float_overflows (real_of_int (max (10 ^ 310 - 0) 0 - 1750000))"
    using float_limit_le by (simp add: float_overflows_def)
  then have 3: "py_float (max (10 ^ 310 - 0) 0 - 1750000) = Inl OverflowError"
    by (simp only: py_float_def if_True)
  have 4: "nifty50 (init [22000, 22100]) = Some [22000, 22100] \<and> [22000, 22100] \<noteq> ([]::real list)
           \<and> std (pct_change [22000, 22100]) = None"
    by (simp add: init_def std_def pct_change_def np_change_def has_infinite_def)
  have 5: "py_gt (PyStr ''1600000'') 1500000 = Inl TypeError"
    by (simp add: py_gt_def)
  have "(2::real) ^ 1024 \<le> (1 + 10 ^ 200 / 100) ^ nat 2" by simp
  then have "float_overflows ((1 + 10 ^ 200 / 100) ^ nat 2)"
    using float_limit_le by (simp add: float_overflows_def)
  then have 6: "py_pow (1 + 10 ^ 200 / 100) 2 = Inl OverflowError"
    by (intro py_pow_overflow) simp_all
  show ?thesis
    using faults_to_defaults [of 613200 10 OverflowError 5000000 1000 8 0 ZeroDivisionError
        5000000 "10 ^ 310" 0 OverflowError "[]" "init [22000, 22100]" "[22000, 22100]"
        "PyStr ''1600000''" TypeError "10 ^ 200" 2 OverflowError "''Travel''" 1000]
      1 2 3 4 5 6
    by simp
qed

section \<open>The risk score\<close>

lemma std_short: "length xs < 3 \<Longrightarrow> xs \<noteq> [] \<Longrightarrow> std (pct_change xs) = None"
proof -
  assume a: "length xs < 3" "xs \<noteq> []"
  then consider p where "xs = [p]" | p q where "xs = [p, q]"
    by (cases xs; cases "tl xs"; cases "tl (tl xs)") auto
  then show ?thesis
  proof cases
    case 1
    then show ?thesis by (simp add: std_def pct_change_def)
  next
    case 2
    then show ?thesis by (cases "np_change p q") (simp_all add: std_def pct_change_def)
  qed
qed

lemma risk_score_le_10: "calculate_risk_profile self \<le> 10"
  by (auto simp: calculate_risk_profile_def calculate_risk_profile_try_def Let_def
      split: sum.splits option.splits if_splits)

text \<open>
  C7. The risk score is exactly 5 when the price series is empty or has a single
  sample, and it is 5 whenever the computation raises.
\<close>

theorem risk_neutral_default:
  "(nifty50 self = Some [] \<or> nifty50 self = Some [p] \<longrightarrow> calculate_risk_profile self = 5)
   \<and> (calculate_risk_profile_try self = Inl e \<longrightarrow> calculate_risk_profile self = 5)"
  by (auto simp: calculate_risk_profile_def calculate_risk_profile_try_def std_def pct_change_def)

theorem risk_neutral_default_witness:
  "calculate_risk_profile (init []) = 5 \<and> calculate_risk_profile (init [22000]) = 5
   \<and> calculate_risk_profile (init [22000, 0, 22100, 22050]) = 5
   \<and> init_risk_profile = 5"
proof -
  have 1: "nifty50 (init []) = Some []" by (simp add: init_def)
  have 2: "nifty50 (init [22000]) = Some [22000]" by (simp add: init_def)
  have 3: "calculate_risk_profile_try (init [22000, 0, 22100, 22050]) = Inl ValueError"
    by (simp add: calculate_risk_profile_try_def init_def std_def pct_change_def np_change_def
        has_infinite_def)
  have 4: "calculate_risk_profile_try \<lparr>nifty50 = None, tax_slabs = Map.empty\<rparr>
             = Inl AttributeError"
    by (simp add: calculate_risk_profile_try_def)
  show ?thesis
    using risk_neutral_default [of "init []" 0 ValueError] 1
      risk_neutral_default [of "init [22000]" 22000 ValueError] 2
      risk_neutral_default [of "init [22000, 0, 22100, 22050]" 0 ValueError] 3
      risk_neutral_default [of "\<lparr>nifty50 = None, tax_slabs = Map.empty\<rparr>" 0 AttributeError] 4
    by (simp add: init_risk_profile_def)
qed

subsection \<open>A volatile series\<close>

lemma pct_change_volatile:
  "pct_change [1000, 1100, 1320, 924] = [NaN, Num (1 / 10), Num (1 / 5), Num (- (3 / 10))]"
  by (simp add: pct_change_def np_change_def)

lemma std_volatile:
  "std [NaN, Num (1 / 10), Num (1 / 5), Num (- (3 / 10))] = Some (sqrt (7 / 100))"
  by (simp add: std_def has_infinite_def mean_def power2_eq_square)

lemma annualized_volatile: "sqrt (7 / 100) * sqrt 252 = 21 / 5"
proof -
  have "sqrt (7 / 100) * sqrt 252 = sqrt ((21 / 5)\<^sup>2)"
    by (simp add: real_sqrt_mult [symmetric] power2_eq_square)
  also have "\<dots> = 21 / 5" by simp
  finally show ?thesis .
qed

text \<open>
  C4. The risk score of every price series should lie in [0, 10]. On the closes
  1000, 1100, 1320, 924 the returns are 10%, 20% and -30%, the annualized volatility
  is 4.2, and the score is \<open>min(int(10 - 420), 10) = -410\<close>: the result is bounded
  above only.
\<close>

theorem risk_score_negative:
  "calculate_risk_profile (init [1000, 1100, 1320, 924]) = - 410"
proof -
  have "calculate_risk_profile_try (init [1000, 1100, 1320, 924])
          = Inr (min (py_int (10 - sqrt (7 / 100) * sqrt 252 * 100)) 10)"
    by (simp add: calculate_risk_profile_try_def init_def pct_change_volatile std_volatile Let_def)
  then show ?thesis
    by (simp add: calculate_risk_profile_def annualized_volatile py_int_def)
qed

section \<open>Saving suggestions\<close>

lemma texts_distinct: "distinct [elss_text, health_text, nps_text]"
  by (simp add: elss_text_def health_text_def nps_text_def)

text \<open>
  C8. \<open>tax_saving_options\<close> makes three independent threshold checks: an income above
  1500000 adds the ELSS suggestion, one above 700000 the health-insurance suggestion,
  one above 500000 the retirement-scheme suggestion, in this order. At 1600000 the
  result is exactly the three suggestions, at 400000 it is empty.
\<close>

theorem saving_suggestions:
  "tax_saving_options income =
     (if 1500000 < income then [elss_text] else [])
     @ (if 700000 < income then [health_text] else [])
     @ (if 500000 < income then [nps_text] else [])
   \<and> tax_saving_options 1600000 = [elss_text, health_text, nps_text]
   \<and> tax_saving_options 400000 = []"
  by (simp add: tax_saving_options_def append_if_def)

theorem saving_suggestions_witness:
  "tax_saving_options 800000 = [health_text, nps_text]
   \<and> tax_saving_options 1600000 = [elss_text, health_text, nps_text]
   \<and> tax_saving_options 400000 = []"
  using saving_suggestions [of 800000] by simp

end
